theory Spec2Isabelle
  imports Main "HOL-Library.Word" "HOL-Library.Multiset"
begin

section \<open>Machine integers and byte strings\<close>

text \<open>
  Go's \<open>int32\<close> and \<open>uint32\<close> are 32-bit words, the first read in two's complement
  (\<open>sint\<close>), the second unsigned (\<open>unat\<close>); the conversion \<open>uint32(x)\<close> keeps the
  bit pattern. A \<open>[]byte\<close> and a Go \<open>string\<close> are both
  sequences of bytes, as a HOL \<open>string\<close> is (a \<open>char\<close> is one byte), so the
  conversions \<open>string(buf)\<close> and \<open>[]byte(s)\<close> are the identity.
\<close>

type_synonym int32 = "32 word"
type_synonym uint32 = "32 word"
type_synonym bytes = string

definition uint32 :: "int32 \<Rightarrow> uint32" where
  "uint32 x = ucast x"

section \<open>The instance registry (package vm)\<close>

text \<open>
  Modelled from the spec: the enumeration \<open>wasm.InstanceState\<close>, whose declaration is
  not among the sources. The source names \<open>InstanceState_Started\<close> and
  \<open>InstanceState_Stopped\<close>; the spec lists the four states
  CREATED, STARTED, STOPPED and DESTROYED.
\<close>

datatype InstanceState =
    InstanceState_Created
  | InstanceState_Started
  | InstanceState_Stopped
  | InstanceState_Destroyed

text \<open>
  A \<open>wasm.Instance\<close> is an interface value, that is a reference to an object that
  other holders may share. The registry \<open>instances\<close> (a \<open>mapx.Map[uint32, wasm.Instance]\<close>)
  therefore maps ids to references, and the objects live in a store that gives the state
  of each one. A missing key loads as the nil interface, \<open>None\<close> here.
\<close>

type_synonym ref = nat

record vm =
  instances :: "uint32 \<rightharpoonup> ref"
  objects :: "ref \<Rightarrow> InstanceState"

text \<open>\<open>mapx.Map.Store\<close> and \<open>mapx.Map.LoadAndRemove\<close>.\<close>

definition Store :: "vm \<Rightarrow> uint32 \<Rightarrow> ref \<Rightarrow> vm" where
  "Store s iid i = s\<lparr>instances := (instances s)(iid \<mapsto> i)\<rparr>"

definition LoadAndRemove :: "vm \<Rightarrow> uint32 \<Rightarrow> ref option \<times> vm" where
  "LoadAndRemove s iid = (instances s iid, s\<lparr>instances := (instances s)(iid := None)\<rparr>)"

text \<open>The method \<open>State()\<close> of an instance reads the object's state.\<close>

definition State :: "vm \<Rightarrow> ref \<Rightarrow> InstanceState" where
  "State s i = objects s i"

text \<open>
  Modelled from the spec: the method \<open>Stop()\<close> of \<open>wasm.Instance\<close>, whose
  implementations are not among the sources. Stop takes a STARTED instance to STOPPED and
  is idempotent on a STOPPED one; it is called here on STARTED instances only.
\<close>

definition Stop :: "vm \<Rightarrow> ref \<Rightarrow> vm" where
  "Stop s i =
     (if objects s i = InstanceState_Started
      then s\<lparr>objects := (objects s)(i := InstanceState_Stopped)\<rparr>
      else s)"

text \<open>
  \<open>AddInstance\<close> draws the id from \<open>uuid.New().ID()\<close>; the drawn id is an argument
  of the model.
\<close>

definition AddInstance :: "vm \<Rightarrow> uint32 \<Rightarrow> ref \<Rightarrow> uint32 \<times> vm" where
  "AddInstance s iid i = (iid, Store s iid i)"

text \<open>
  \<open>DelInstance\<close>: the entry is taken out of the registry first; the instance that was
  there is stopped when its state is STARTED. The returned error is always nil.
\<close>

definition DelInstance :: "vm \<Rightarrow> uint32 \<Rightarrow> string option \<times> vm" where
  "DelInstance s iid =
     (case LoadAndRemove s iid of
        (None, s1) \<Rightarrow> (None, s1)
      | (Some i, s1) \<Rightarrow>
          if State s1 i = InstanceState_Started then (None, Stop s1 i) else (None, s1))"

text \<open>\<open>StartInstance\<close> and \<open>StopInstance\<close> return nil and touch nothing.\<close>

definition StartInstance :: "vm \<Rightarrow> uint32 \<Rightarrow> string option \<times> vm" where
  "StartInstance s iid = (None, s)"

definition StopInstance :: "vm \<Rightarrow> uint32 \<Rightarrow> string option \<times> vm" where
  "StopInstance s iid = (None, s)"

text \<open>\<open>GetInstanceState\<close> answers with a constant pair; it does not read the registry.\<close>

definition GetInstanceState :: "vm \<Rightarrow> uint32 \<Rightarrow> InstanceState \<times> bool" where
  "GetInstanceState s iid = (InstanceState_Stopped, True)"

text \<open>Example registries: instance object 0 registered under id 7.\<close>

definition vm_started :: vm where
  "vm_started = \<lparr>instances = [7 \<mapsto> 0], objects = (\<lambda>_. InstanceState_Started)\<rparr>"

definition vm_created :: vm where
  "vm_created = \<lparr>instances = [7 \<mapsto> 0], objects = (\<lambda>_. InstanceState_Created)\<rparr>"

definition vm_stopped :: vm where
  "vm_stopped = \<lparr>instances = [7 \<mapsto> 0], objects = (\<lambda>_. InstanceState_Stopped)\<rparr>"

section \<open>The host ABI (package wasmtime, type ExportFuncs)\<close>

text \<open>
  Modelled from the spec: the constants \<open>wasm.ResultStatusCode_*\<close>, which the host
  functions return and whose declarations are not among the sources. The values are those
  of the spec's status code registry.
\<close>

definition ResultStatusCode_OK :: int32 where
  "ResultStatusCode_OK = 0"

definition ResultStatusCode_Failed :: int32 where
  "ResultStatusCode_Failed = - 1"

definition ResultStatusCode_ResourceNotFound :: int32 where
  "ResultStatusCode_ResourceNotFound = - 2"

definition ResultStatusCode_TransDataFromVMFailed :: int32 where
  "ResultStatusCode_TransDataFromVMFailed = - 3"

definition ResultStatusCode_TransDataToVMFailed :: int32 where
  "ResultStatusCode_TransDataToVMFailed = - 4"

definition ResultStatusCode_NoDBContext :: int32 where
  "ResultStatusCode_NoDBContext = - 5"

definition ResultStatusCode_EnvKeyNotFound :: int32 where
  "ResultStatusCode_EnvKeyNotFound = - 6"

definition ResultStatusCode_HostInternal :: int32 where
  "ResultStatusCode_HostInternal = - 7"

text \<open>
  The log levels of \<open>conflog\<close>. The numbers behind the named levels are not among the
  sources, so a level that \<open>Log\<close> converts from a guest number is kept as that number.
\<close>

datatype Level = TraceLevel | DebugLevel | InfoLevel | WarnLevel | ErrorLevel | LevelOf int32

definition efSrc :: string where
  "efSrc = ''wasmExportFunc''"

definition codeSrc :: string where
  "codeSrc = ''wasmCode''"

text \<open>
  What the host functions use and the sources do not contain is a parameter of the model:
  \<^item> \<open>Read\<close> and \<open>Copy\<close> of the runtime \<open>ef.rt\<close>, over the guest's linear memory
    \<open>'m\<close>. \<open>Read\<close> returns the bytes or the text of its error; \<open>Copy\<close> returns its
    error, if any, and the memory it leaves behind;
  \<^item> \<open>kvs_Get\<close> and \<open>kvs_Set\<close> of the key-value store \<open>ef.kvs\<close> over its contents
    \<open>'kv\<close>. \<open>Get\<close> returns a value (nil is \<open>None\<close>) and an error, \<open>Set\<close> an error
    and the contents it leaves behind;
  \<^item> \<open>env\<close>, the project's environment \<open>ef.env\<close>, nil (\<open>None\<close>) or a table of
    strings;
  \<^item> \<open>srv_Call\<close>, the API server \<open>ef.srv\<close>, and \<open>json_Marshal\<close> of its answer;
  \<^item> \<open>Quote\<close>, the library function \<open>strconv.Quote\<close>.
\<close>

record ('m, 'kv, 'resp) Host =
  Read :: "'m \<Rightarrow> int32 \<Rightarrow> int32 \<Rightarrow> string + bytes"
  Copy :: "'m \<Rightarrow> bytes \<Rightarrow> int32 \<Rightarrow> int32 \<Rightarrow> string option \<times> 'm"
  kvs_Get :: "'kv \<Rightarrow> string \<Rightarrow> bytes option \<times> string option"
  kvs_Set :: "'kv \<Rightarrow> string \<Rightarrow> bytes \<Rightarrow> string option \<times> 'kv"
  env :: "(string \<rightharpoonup> string) option"
  srv_Call :: "bytes \<Rightarrow> 'resp"
  json_Marshal :: "'resp \<Rightarrow> string + bytes"
  Quote :: "string \<Rightarrow> string"

text \<open>
  The state the host functions of one instance work on: the guest's linear memory, the
  resource map \<open>ef.res\<close> (a \<open>mapx.Map[uint32, []byte]\<close>), the contents of the key-value
  store, and the records handed to \<open>logAndPersistToDB\<close> in order.
\<close>

record ('m, 'kv) ExportFuncs =
  mem :: 'm
  res :: "uint32 \<rightharpoonup> bytes"
  kvs :: 'kv
  wasm_logs :: "(Level \<times> string \<times> string) list"

text \<open>
  \<open>logAndPersistToDB\<close> writes the message to the logger at the given level and dispatches
  a log task with the level, the source (\<open>efSrc\<close> when none is given) and the message;
  the model keeps one record of the three. The debug lines that go to the logger alone
  (\<open>ef.log.Debug\<close>) leave no trace in the model.
\<close>

definition logAndPersistToDB ::
  "('m, 'kv) ExportFuncs \<Rightarrow> Level \<Rightarrow> string \<Rightarrow> string \<Rightarrow> ('m, 'kv) ExportFuncs" where
  "logAndPersistToDB ef logLevel logSrc msg =
     ef\<lparr>wasm_logs := wasm_logs ef @ [(logLevel, if length logSrc = 0 then efSrc else logSrc, msg)]\<rparr>"

definition Log ::
  "('m, 'kv, 'resp) Host \<Rightarrow> ('m, 'kv) ExportFuncs \<Rightarrow> int32 \<Rightarrow> int32 \<Rightarrow> int32
     \<Rightarrow> int32 \<times> ('m, 'kv) ExportFuncs" where
  "Log h ef logLevel ptr sz =
     (case Read h (mem ef) ptr sz of
        Inl err \<Rightarrow> (ResultStatusCode_Failed, logAndPersistToDB ef ErrorLevel codeSrc err)
      | Inr buf \<Rightarrow> (ResultStatusCode_OK, logAndPersistToDB ef (LevelOf logLevel) codeSrc buf))"

definition ApiCall ::
  "('m, 'kv, 'resp) Host \<Rightarrow> ('m, 'kv) ExportFuncs \<Rightarrow> int32 \<Rightarrow> int32 \<Rightarrow> int32 \<Rightarrow> int32
     \<Rightarrow> int32 \<times> ('m, 'kv) ExportFuncs" where
  "ApiCall h ef kAddr kSize vmAddrPtr vmSizePtr =
     (case Read h (mem ef) kAddr kSize of
        Inl err \<Rightarrow>
          (ResultStatusCode_TransDataFromVMFailed, logAndPersistToDB ef ErrorLevel efSrc err)
      | Inr buf \<Rightarrow>
          (case json_Marshal h (srv_Call h buf) of
             Inl err \<Rightarrow> (ResultStatusCode_HostInternal, logAndPersistToDB ef ErrorLevel efSrc err)
           | Inr respJson \<Rightarrow>
               (case Copy h (mem ef) respJson vmAddrPtr vmSizePtr of
                  (Some err, m) \<Rightarrow>
                    (ResultStatusCode_TransDataToVMFailed,
                     logAndPersistToDB (ef\<lparr>mem := m\<rparr>) ErrorLevel efSrc err)
                | (None, m) \<Rightarrow> (ResultStatusCode_OK, ef\<lparr>mem := m\<rparr>))))"

definition GetData ::
  "('m, 'kv, 'resp) Host \<Rightarrow> ('m, 'kv) ExportFuncs \<Rightarrow> int32 \<Rightarrow> int32 \<Rightarrow> int32
     \<Rightarrow> int32 \<times> ('m, 'kv) ExportFuncs" where
  "GetData h ef rid vmAddrPtr vmSizePtr =
     (case res ef (uint32 rid) of
        None \<Rightarrow> (ResultStatusCode_ResourceNotFound, ef)
      | Some data \<Rightarrow>
          (case Copy h (mem ef) data vmAddrPtr vmSizePtr of
             (Some err, m) \<Rightarrow>
               (ResultStatusCode_TransDataToVMFailed,
                logAndPersistToDB (ef\<lparr>mem := m\<rparr>) ErrorLevel efSrc err)
           | (None, m) \<Rightarrow> (ResultStatusCode_OK, ef\<lparr>mem := m\<rparr>)))"

definition SetData ::
  "('m, 'kv, 'resp) Host \<Rightarrow> ('m, 'kv) ExportFuncs \<Rightarrow> int32 \<Rightarrow> int32 \<Rightarrow> int32
     \<Rightarrow> int32 \<times> ('m, 'kv) ExportFuncs" where
  "SetData h ef rid addr sz =
     (case Read h (mem ef) addr sz of
        Inl err \<Rightarrow>
          (ResultStatusCode_TransDataToVMFailed, logAndPersistToDB ef ErrorLevel efSrc err)
      | Inr buf \<Rightarrow> (ResultStatusCode_OK, ef\<lparr>res := (res ef)(uint32 rid \<mapsto> buf)\<rparr>))"

definition GetDB ::
  "('m, 'kv, 'resp) Host \<Rightarrow> ('m, 'kv) ExportFuncs \<Rightarrow> int32 \<Rightarrow> int32 \<Rightarrow> int32 \<Rightarrow> int32
     \<Rightarrow> int32 \<times> ('m, 'kv) ExportFuncs" where
  "GetDB h ef kAddr kSize vmAddrPtr vmSizePtr =
     (case Read h (mem ef) kAddr kSize of
        Inl err \<Rightarrow>
          (ResultStatusCode_ResourceNotFound, logAndPersistToDB ef ErrorLevel efSrc err)
      | Inr key \<Rightarrow>
          (case kvs_Get h (kvs ef) key of
             (None, exist) \<Rightarrow> (ResultStatusCode_ResourceNotFound, ef)
           | (Some val, Some err) \<Rightarrow> (ResultStatusCode_ResourceNotFound, ef)
           | (Some val, None) \<Rightarrow>
               (let ef1 = logAndPersistToDB ef InfoLevel efSrc
                            (''host.GetDB '' @ key @ '':'' @ Quote h val)
                in case Copy h (mem ef1) val vmAddrPtr vmSizePtr of
                     (Some err, m) \<Rightarrow>
                       (ResultStatusCode_TransDataToVMFailed,
                        logAndPersistToDB (ef1\<lparr>mem := m\<rparr>) ErrorLevel efSrc err)
                   | (None, m) \<Rightarrow> (ResultStatusCode_OK, ef1\<lparr>mem := m\<rparr>))))"

definition SetDB ::
  "('m, 'kv, 'resp) Host \<Rightarrow> ('m, 'kv) ExportFuncs \<Rightarrow> int32 \<Rightarrow> int32 \<Rightarrow> int32 \<Rightarrow> int32
     \<Rightarrow> int32 \<times> ('m, 'kv) ExportFuncs" where
  "SetDB h ef kAddr kSize vAddr vSize =
     (case Read h (mem ef) kAddr kSize of
        Inl err \<Rightarrow>
          (ResultStatusCode_ResourceNotFound, logAndPersistToDB ef ErrorLevel efSrc err)
      | Inr key \<Rightarrow>
          (case Read h (mem ef) vAddr vSize of
             Inl err \<Rightarrow>
               (ResultStatusCode_ResourceNotFound, logAndPersistToDB ef ErrorLevel efSrc err)
           | Inr val \<Rightarrow>
               (let ef1 = logAndPersistToDB ef InfoLevel efSrc
                            (''host.SetDB '' @ key @ '':'' @ Quote h val)
                in case kvs_Set h (kvs ef1) key val of
                     (Some err, kv) \<Rightarrow>
                       (ResultStatusCode_Failed,
                        logAndPersistToDB (ef1\<lparr>kvs := kv\<rparr>) ErrorLevel efSrc err)
                   | (None, kv) \<Rightarrow> (ResultStatusCode_OK, ef1\<lparr>kvs := kv\<rparr>))))"

definition GetEnv ::
  "('m, 'kv, 'resp) Host \<Rightarrow> ('m, 'kv) ExportFuncs \<Rightarrow> int32 \<Rightarrow> int32 \<Rightarrow> int32 \<Rightarrow> int32
     \<Rightarrow> int32 \<times> ('m, 'kv) ExportFuncs" where
  "GetEnv h ef kAddr kSize vmAddrPtr vmSizePtr =
     (case env h of
        None \<Rightarrow> (ResultStatusCode_EnvKeyNotFound, ef)
      | Some e \<Rightarrow>
          (case Read h (mem ef) kAddr kSize of
             Inl err \<Rightarrow>
               (ResultStatusCode_TransDataToVMFailed, logAndPersistToDB ef ErrorLevel efSrc err)
           | Inr key \<Rightarrow>
               (case e key of
                  None \<Rightarrow> (ResultStatusCode_EnvKeyNotFound, ef)
                | Some val \<Rightarrow>
                    (case Copy h (mem ef) val vmAddrPtr vmSizePtr of
                       (Some err, m) \<Rightarrow>
                         (ResultStatusCode_TransDataToVMFailed,
                          logAndPersistToDB (ef\<lparr>mem := m\<rparr>) ErrorLevel efSrc err)
                     | (None, m) \<Rightarrow> (ResultStatusCode_OK, ef\<lparr>mem := m\<rparr>)))))"

text \<open>
  An example host. The linear memory is a byte string; \<open>Read\<close> fails outside it; \<open>Copy\<close>
  places the data at the end of the memory; the key-value store is a table that takes
  every write; the environment has one entry.
\<close>

definition ex_Read :: "bytes \<Rightarrow> int32 \<Rightarrow> int32 \<Rightarrow> string + bytes" where
  "ex_Read m ptr sz =
     (if 0 \<le> sint ptr \<and> 0 \<le> sint sz \<and> sint ptr + sint sz \<le> int (length m)
      then Inr (take (unat sz) (drop (unat ptr) m))
      else Inl ''overflow'')"

definition ex_Copy :: "bytes \<Rightarrow> bytes \<Rightarrow> int32 \<Rightarrow> int32 \<Rightarrow> string option \<times> bytes" where
  "ex_Copy m data p q = (None, m @ data)"

definition ex_kvs_Get :: "(string \<rightharpoonup> bytes) \<Rightarrow> string \<Rightarrow> bytes option \<times> string option" where
  "ex_kvs_Get kv k = (kv k, None)"

definition ex_kvs_Set ::
  "(string \<rightharpoonup> bytes) \<Rightarrow> string \<Rightarrow> bytes \<Rightarrow> string option \<times> (string \<rightharpoonup> bytes)" where
  "ex_kvs_Set kv k v = (None, kv(k \<mapsto> v))"

definition ex_host :: "(bytes, string \<rightharpoonup> bytes, bytes) Host" where
  "ex_host =
     \<lparr>Read = ex_Read, Copy = ex_Copy, kvs_Get = ex_kvs_Get, kvs_Set = ex_kvs_Set,
      env = Some [''region'' \<mapsto> ''eu''], srv_Call = rev, json_Marshal = Inr, Quote = rev\<rparr>"

definition ex_ef :: "(bytes, string \<rightharpoonup> bytes) ExportFuncs" where
  "ex_ef = \<lparr>mem = ''keyvalue'', res = Map.empty, kvs = Map.empty, wasm_logs = []\<rparr>"

section \<open>The request worker of the async API broker (package async)\<close>

text \<open>
  Every error \<open>ProcessTask\<close> returns is made by \<open>fmt.Errorf\<close> with the verb \<open>%w\<close>: a
  text, and the error it wraps. \<open>errors_Is\<close> is what \<open>errors.Is\<close> finds by unwrapping.
\<close>

datatype sentinel = SkipRetry

datatype wrapError = Errorf (message: string) (Unwrap: "sentinel option")

definition errors_Is :: "wrapError \<Rightarrow> sentinel \<Rightarrow> bool" where
  "errors_Is err target = (Unwrap err = Some target)"

text \<open>
  An \<open>http.Header\<close> is a map from keys to lists of values (a nil map reads as the empty
  one). The records are those of \<open>apitypes\<close>, of \<open>net/http\<close> and of the task payload, with
  the fields \<open>ProcessTask\<close> reads. The \<open>Project\<close> of a payload is a pointer and may be
  nil (\<open>None\<close>); of a project only \<open>ProjectName.Name\<close> is read. The body of a
  response is nil (\<open>None\<close>) or a reader that yields bytes or fails.
\<close>

type_synonym http_Header = "string \<rightharpoonup> string list"

record models_Project =
  Name :: string

record 'c apiCallPayload =
  Project :: "models_Project option"
  ChainClient :: 'c
  Data :: bytes

record HttpRequest =
  Method :: string
  Url :: string
  Header :: http_Header
  Body :: bytes

record Response =
  Status :: string
  StatusCode :: int
  Proto :: string
  Header :: http_Header
  Body :: "(string + bytes) option"

record HttpResponse =
  Status :: string
  StatusCode :: int
  Proto :: string
  Header :: http_Header
  Body :: "bytes option"

text \<open>
  What \<open>ProcessTask\<close> calls and the sources do not contain is a parameter of the model:
  \<^item> \<open>Unmarshal_payload\<close> and \<open>Unmarshal_request\<close>, \<open>json.Unmarshal\<close> into the task
    payload and into the request envelope: the value, or the text of the error;
  \<^item> \<open>http_NewRequest\<close>: the error of \<open>http.NewRequest\<close> for a method and a URL, if any;
  \<^item> \<open>ServeHTTP\<close>, the router, with the recorded response as its result; it is taken
    not to change the headers of the request it serves;
  \<^item> \<open>CanonicalHeaderKey\<close>, the form of a key under which \<open>http.Header.Get\<close> looks;
  \<^item> \<open>Marshal_response\<close>, \<open>json.Marshal\<close> of the response envelope;
  \<^item> \<open>newApiResultTask\<close>, which builds the \<open>api_result\<close> task;
  \<^item> \<open>Enqueue_error\<close>, the error of the queue client's \<open>Enqueue\<close>, if any;
  \<^item> \<open>SkipRetry_Error\<close>, the text of \<open>asynq.SkipRetry\<close>.
  The queue is the list of the tasks it has accepted.
\<close>

record ('c, 'task) Broker =
  Unmarshal_payload :: "bytes \<Rightarrow> string + 'c apiCallPayload"
  Unmarshal_request :: "bytes \<Rightarrow> string + HttpRequest"
  http_NewRequest :: "string \<Rightarrow> string \<Rightarrow> string option"
  ServeHTTP :: "'c apiCallPayload \<Rightarrow> HttpRequest \<Rightarrow> Response"
  CanonicalHeaderKey :: "string \<Rightarrow> string"
  Marshal_response :: "HttpResponse \<Rightarrow> string + bytes"
  newApiResultTask :: "string \<Rightarrow> string \<Rightarrow> bytes \<Rightarrow> string + 'task"
  Enqueue_error :: "'task \<Rightarrow> string option"
  SkipRetry_Error :: string

text \<open>\<open>http.Header.Get\<close>: the first value under the canonical key, or the empty string.\<close>

definition Header_Get :: "('c, 'task) Broker \<Rightarrow> http_Header \<Rightarrow> string \<Rightarrow> string" where
  "Header_Get b hdr key =
     (case hdr (CanonicalHeaderKey b key) of
        None \<Rightarrow> []
      | Some [] \<Rightarrow> []
      | Some (v # vs) \<Rightarrow> v)"

text \<open>\<open>fmt.Errorf(prefix + "%v: %w", err, asynq.SkipRetry)\<close>.\<close>

definition skipRetry :: "('c, 'task) Broker \<Rightarrow> string \<Rightarrow> string \<Rightarrow> wrapError" where
  "skipRetry b prefix err = Errorf (prefix @ err @ '': '' @ SkipRetry_Error b) (Some SkipRetry)"

text \<open>\<open>p.cli.Enqueue(task)\<close> on the queue \<open>q\<close>.\<close>

definition Enqueue ::
  "('c, 'task) Broker \<Rightarrow> 'task list \<Rightarrow> 'task \<Rightarrow> string option \<times> 'task list" where
  "Enqueue b q task =
     (case Enqueue_error b task of
        Some err \<Rightarrow> (Some err, q)
      | None \<Rightarrow> (None, q @ [task]))"

text \<open>
  \<open>ApiCallProcessor.ProcessTask\<close> on a task with payload bytes \<open>t\<close>, with the queue \<open>q\<close>
  before. The result is \<open>None\<close> when the call panics (the payload has no project, and
  \<open>payload.Project.ProjectName.Name\<close> is a nil dereference), otherwise the returned
  error (nil is \<open>None\<close>) and the queue after.
\<close>

definition ProcessTask ::
  "('c, 'task) Broker \<Rightarrow> 'task list \<Rightarrow> bytes \<Rightarrow> (wrapError option \<times> 'task list) option" where
  "ProcessTask b q t =
     (case Unmarshal_payload b t of
        Inl err \<Rightarrow> Some (Some (skipRetry b ''json.Unmarshal failed: '' err), q)
      | Inr payload \<Rightarrow>
     (case Unmarshal_request b (Data payload) of
        Inl err \<Rightarrow> Some (Some (skipRetry b ''http.ReadRequest failed: '' err), q)
      | Inr apiReq \<Rightarrow>
     (case http_NewRequest b (Method apiReq) (Url apiReq) of
        Some err \<Rightarrow> Some (Some (skipRetry b ''http.ReadRequest failed: '' err), q)
      | None \<Rightarrow>
     (let resp = ServeHTTP b payload apiReq
      in case Project payload of
           None \<Rightarrow> None
         | Some prj \<Rightarrow>
     (let projectName = Name prj
      in case (case Response.Body resp of
                 None \<Rightarrow> Inr None
               | Some (Inl err) \<Rightarrow> Inl err
               | Some (Inr bs) \<Rightarrow> Inr (Some bs)) of
           Inl err \<Rightarrow> Some (Some (skipRetry b ''encode http response failed: '' err), q)
         | Inr body \<Rightarrow>
     (let respHeader = Response.Header resp ++ (HttpRequest.Header apiReq)(''Content-Type'' := None);
          apiResp = \<lparr>Status = Response.Status resp, StatusCode = Response.StatusCode resp,
                     Proto = Response.Proto resp, Header = respHeader, Body = body\<rparr>
      in case Marshal_response b apiResp of
           Inl err \<Rightarrow> Some (Some (skipRetry b ''encode http response failed: '' err), q)
         | Inr apiRespJson \<Rightarrow>
     (let eventType = Header_Get b (HttpRequest.Header apiReq) ''eventType''
      in if eventType = []
         then Some (Some (Errorf (''miss eventType, projectName '' @ projectName @ '': ''
                                   @ SkipRetry_Error b) (Some SkipRetry)), q)
         else
           (case newApiResultTask b projectName eventType apiRespJson of
              Inl err \<Rightarrow> Some (Some (skipRetry b ''new api result task failed: '' err), q)
            | Inr task \<Rightarrow>
                (case Enqueue b q task of
                   (Some err, q') \<Rightarrow> Some (Some (skipRetry b ''could not enqueue task: '' err), q')
                 | (None, q') \<Rightarrow> Some (None, q'))))))))))"

text \<open>
  An example broker. Every task decodes to a payload of project \<open>''p''\<close> whose data are
  the task's bytes; the data \<open>''typed''\<close> decode to a request with the header
  \<open>Eventtype: resp.v1\<close>, all other data to a request without it. The router answers 200,
  the queue takes every task, and a task is the triple it was built from.
\<close>

definition ex_Unmarshal_payload :: "bytes \<Rightarrow> string + unit apiCallPayload" where
  "ex_Unmarshal_payload t = Inr \<lparr>Project = Some \<lparr>Name = ''p''\<rparr>, ChainClient = (), Data = t\<rparr>"

definition ex_Unmarshal_request :: "bytes \<Rightarrow> string + HttpRequest" where
  "ex_Unmarshal_request data =
     Inr \<lparr>Method = ''GET'', Url = ''/echo'',
          Header = (if data = ''typed'' then [''Eventtype'' \<mapsto> [''resp.v1'']]
                    else [''Content-Type'' \<mapsto> [''text/plain'']]),
          Body = []\<rparr>"

definition ex_NewRequest :: "string \<Rightarrow> string \<Rightarrow> string option" where
  "ex_NewRequest m u = None"

definition ex_ServeHTTP :: "unit apiCallPayload \<Rightarrow> HttpRequest \<Rightarrow> Response" where
  "ex_ServeHTTP payload req =
     \<lparr>Response.Status = ''200 OK'', StatusCode = 200, Proto = ''HTTP/1.1'',
      Header = Map.empty, Body = Some (Inr ''ok'')\<rparr>"

definition ex_CanonicalHeaderKey :: "string \<Rightarrow> string" where
  "ex_CanonicalHeaderKey k = (if k = ''eventType'' then ''Eventtype'' else k)"

definition ex_Marshal_response :: "HttpResponse \<Rightarrow> string + bytes" where
  "ex_Marshal_response r = Inr (HttpResponse.Status r)"

definition ex_newApiResultTask ::
  "string \<Rightarrow> string \<Rightarrow> bytes \<Rightarrow> string + (string \<times> string \<times> bytes)" where
  "ex_newApiResultTask projectName eventType data = Inr (projectName, eventType, data)"

definition ex_Enqueue_error :: "(string \<times> string \<times> bytes) \<Rightarrow> string option" where
  "ex_Enqueue_error task = None"

definition ex_broker :: "(unit, string \<times> string \<times> bytes) Broker" where
  "ex_broker =
     \<lparr>Unmarshal_payload = ex_Unmarshal_payload, Unmarshal_request = ex_Unmarshal_request,
      http_NewRequest = ex_NewRequest, ServeHTTP = ex_ServeHTTP,
      CanonicalHeaderKey = ex_CanonicalHeaderKey, Marshal_response = ex_Marshal_response,
      newApiResultTask = ex_newApiResultTask, Enqueue_error = ex_Enqueue_error,
      SkipRetry_Error = ''skip retry for the task''\<rparr>"

section \<open>The event dispatcher (package event)\<close>

text \<open>
  The records of the event protocol, with the fields the dispatcher reads. The \<open>Header\<close>
  of an event is a pointer and may be nil (\<open>None\<close>). A \<open>types.SFID\<close> is a 64-bit number.
\<close>

type_synonym SFID = "64 word"

record Header =
  EventId :: string
  PubId :: string
  Token :: string
  EventType :: string

record Event =
  Header :: "Header option"
  Payload :: string

record EventHandleResult =
  InstanceID :: string
  Code :: int32
  ErrMsg :: string

record HandleEventResult =
  ProjectName :: string
  PubID :: SFID
  PubName :: string
  EventID :: string
  ErrMsg :: string
  WasmResults :: "EventHandleResult list"

record InstanceHandler =
  InstanceID :: SFID
  Handler :: string

record Publisher =
  PublisherID :: SFID
  Name :: string

text \<open>
  The errors the dispatcher returns: one made on the spot by \<open>errors.New\<close>, one of the
  constants of package \<open>status\<close>, or an error that a collaborator outside the sources
  returned, kept with its text.
\<close>

datatype status = InvalidAuthValue | InvalidAuthPorjectID | NoProjectPermission

datatype error = errors_New string | StatusError status | Foreign string

text \<open>The payload of a parsed token is an \<open>interface{}\<close>: a string or something else.\<close>

datatype payload = PayloadString string | PayloadOther

text \<open>
  Modelled from the spec: the constant \<open>enums.EVENTTYPEDEFAULT\<close>, declared outside the
  sources; the spec calls the event type used for an event without one DEFAULT.
\<close>

definition EVENTTYPEDEFAULT :: string where
  "EVENTTYPEDEFAULT = ''DEFAULT''"

text \<open>
  What the dispatcher calls and the sources do not contain is a parameter of the model:
  \<^item> \<open>ProjectID\<close>, the id of the project in the context;
  \<^item> \<open>ParseToken\<close> of a \<open>jwt.Jwt\<close> made from the project's issuer, expiry and signing
    key: the payload of the claim, or an error;
  \<^item> \<open>UnmarshalText\<close> of \<open>types.SFID\<close>: the id a text denotes, or none on an error;
  \<^item> \<open>GetPublisherByPubKeyAndProjectName\<close> of package \<open>publisher\<close>;
  \<^item> \<open>FindStrategyInstances\<close> of package \<open>strategy\<close>, the resolver;
  \<^item> \<open>GetConsumer\<close> of package \<open>vm\<close>, the registry lookup, nil (\<open>None\<close>) for an
    instance that is not there;
  \<^item> \<open>HandleEvent\<close> of an instance, whose result is a pointer and may be nil (\<open>None\<close>);
  \<^item> \<open>SFID_String\<close>, the method \<open>String\<close> of an id;
  \<^item> \<open>status_Error\<close>, the text of a status error (its method \<open>Error\<close> goes through
    \<open>statusx\<close>);
  \<^item> \<open>completion\<close>, the order in which the results reach the channel: the handlers run
    as goroutines, so the channel holds the results in the order of their completion.
\<close>

record 'i Dispatch =
  ProjectID :: SFID
  ParseToken :: "string \<Rightarrow> error + payload"
  UnmarshalText :: "string \<Rightarrow> SFID option"
  GetPublisherByPubKeyAndProjectName :: "string \<Rightarrow> string \<Rightarrow> error + Publisher"
  FindStrategyInstances :: "string \<Rightarrow> string \<Rightarrow> error + InstanceHandler list"
  GetConsumer :: "SFID \<Rightarrow> 'i option"
  HandleEvent :: "'i \<Rightarrow> string \<Rightarrow> bytes \<Rightarrow> EventHandleResult option"
  SFID_String :: "SFID \<Rightarrow> string"
  status_Error :: "status \<Rightarrow> string"
  completion :: "EventHandleResult option list \<Rightarrow> EventHandleResult option list"

text \<open>The method \<open>Error\<close> of an error value.\<close>

definition Error :: "'i Dispatch \<Rightarrow> error \<Rightarrow> string" where
  "Error d e = (case e of errors_New s \<Rightarrow> s | StatusError v \<Rightarrow> status_Error d v | Foreign s \<Rightarrow> s)"

definition publisherVerification :: "'i Dispatch \<Rightarrow> Event \<Rightarrow> error option" where
  "publisherVerification d r =
     (case Header r of
        None \<Rightarrow> Some (errors_New ''message token is invalid'')
      | Some h \<Rightarrow>
          if length (Token h) = 0 then Some (errors_New ''message token is invalid'')
          else
            (case ParseToken d (Token h) of
               Inl err \<Rightarrow> Some err
             | Inr PayloadOther \<Rightarrow> Some (StatusError InvalidAuthValue)
             | Inr (PayloadString v) \<Rightarrow>
                 (case UnmarshalText d v of
                    None \<Rightarrow> Some (StatusError InvalidAuthPorjectID)
                  | Some projectID \<Rightarrow>
                      if projectID = ProjectID d then None
                      else Some (StatusError NoProjectPermission))))"

text \<open>
  The fan-out loop: what is sent to the channel \<open>res\<close> for each matched handler, in
  the order of the handlers. For an instance that is not in the registry the entry is
  made on the spot; otherwise it is whatever \<open>HandleEvent\<close> returns, nil included. The
  channel has room for one entry per handler, so no send blocks.
\<close>

fun fanout :: "'i Dispatch \<Rightarrow> Event \<Rightarrow> InstanceHandler list \<Rightarrow> EventHandleResult option list" where
  "fanout d r [] = []"
| "fanout d r (v # vs) =
     (case GetConsumer d (InstanceHandler.InstanceID v) of
        None \<Rightarrow>
          Some \<lparr>EventHandleResult.InstanceID = SFID_String d (InstanceHandler.InstanceID v),
                Code = - 1, ErrMsg = ''instance not found''\<rparr>
      | Some i \<Rightarrow> HandleEvent d i (Handler v) (Payload r))
     # fanout d r vs"

text \<open>The loop that drains the channel: nil entries are skipped, the others appended.\<close>

fun collect :: "EventHandleResult option list \<Rightarrow> EventHandleResult list \<Rightarrow> EventHandleResult list" where
  "collect [] acc = acc"
| "collect (None # vs) acc = collect vs acc"
| "collect (Some v # vs) acc = collect vs (acc @ [v])"

text \<open>
  The deferred function of \<open>OnEventReceived\<close>: when the named result \<open>err\<close> is not nil
  at the return, its text goes into \<open>ErrMsg\<close>.
\<close>

definition deferred ::
  "'i Dispatch \<Rightarrow> HandleEventResult \<times> error option \<Rightarrow> HandleEventResult \<times> error option" where
  "deferred d x =
     (case x of
        (ret, None) \<Rightarrow> (ret, None)
      | (ret, Some err) \<Rightarrow> (ret\<lparr>HandleEventResult.ErrMsg := Error d err\<rparr>, Some err))"

text \<open>
  \<open>OnEventReceived\<close>. The result is \<open>None\<close> when the call panics: \<open>r.Header.EventId\<close> is
  read before anything checks the header, so an event with a nil header is a nil
  dereference. Otherwise it is the pair of named results \<open>(ret, err)\<close> after the deferred
  function. When the publisher lookup fails, its error is held in the local \<open>e\<close> and
  the bare \<open>return\<close> returns the named results as they stand: \<open>err\<close> is nil then.
\<close>

definition OnEventReceived ::
  "'i Dispatch \<Rightarrow> string \<Rightarrow> Event \<Rightarrow> (HandleEventResult \<times> error option) option" where
  "OnEventReceived d projectName r =
     (case Header r of
        None \<Rightarrow> None
      | Some h \<Rightarrow>
          (let ret = \<lparr>ProjectName = projectName, PubID = 0, PubName = [], EventID = EventId h,
                      ErrMsg = [], WasmResults = []\<rparr>
           in case publisherVerification d r of
                Some err \<Rightarrow> Some (deferred d (ret, Some err))
              | None \<Rightarrow>
                  (case (if length (PubId h) > 0
                         then (case GetPublisherByPubKeyAndProjectName d (PubId h) projectName of
                                 Inl e \<Rightarrow> Inl (ret, None)
                               | Inr pub \<Rightarrow> Inr (ret\<lparr>PubID := PublisherID pub, PubName := Name pub\<rparr>))
                         else Inr ret) of
                     Inl x \<Rightarrow> Some (deferred d x)
                   | Inr ret1 \<Rightarrow>
                       (let eventType = (if length (EventType h) > 0 then EventType h
                                         else EVENTTYPEDEFAULT)
                        in case FindStrategyInstances d projectName eventType of
                             Inl err \<Rightarrow> Some (deferred d (ret1, Some err))
                           | Inr handlers \<Rightarrow>
                               (let res = completion d (fanout d r handlers)
                                in Some (deferred d
                                     (ret1\<lparr>WasmResults := collect res (WasmResults ret1)\<rparr>,
                                      None)))))))"

text \<open>
  An example dispatcher. Instances are numbers; instance 1 is the only one in the
  registry, and it answers every event with code 0. The token \<open>''good''\<close> parses to
  the project's own id, \<open>''odd''\<close> to a payload that is not a string, every other
  token fails to parse. The publisher \<open>''pubA''\<close> is registered. Events of type
  \<open>''DEFAULT''\<close> match the handlers of instances 1 and 2, other events none.
\<close>

definition ex_ParseToken :: "string \<Rightarrow> error + payload" where
  "ex_ParseToken t =
     (if t = ''good'' then Inr (PayloadString ''42'')
      else if t = ''odd'' then Inr PayloadOther
      else Inl (Foreign ''token is invalid''))"

definition ex_UnmarshalText :: "string \<Rightarrow> SFID option" where
  "ex_UnmarshalText t = (if t = ''42'' then Some 42 else None)"

definition ex_GetPublisher :: "string \<Rightarrow> string \<Rightarrow> error + Publisher" where
  "ex_GetPublisher k p =
     (if k = ''pubA'' then Inr \<lparr>PublisherID = 7, Name = ''A''\<rparr>
      else Inl (Foreign ''publisher not found''))"

definition ex_FindStrategyInstances :: "string \<Rightarrow> string \<Rightarrow> error + InstanceHandler list" where
  "ex_FindStrategyInstances p t =
     (if t = ''DEFAULT''
      then Inr [\<lparr>InstanceID = 1, Handler = ''start''\<rparr>, \<lparr>InstanceID = 2, Handler = ''start''\<rparr>]
      else Inr [])"

definition ex_GetConsumer :: "SFID \<Rightarrow> nat option" where
  "ex_GetConsumer i = (if i = 1 then Some 1 else None)"

definition ex_HandleEvent :: "nat \<Rightarrow> string \<Rightarrow> bytes \<Rightarrow> EventHandleResult option" where
  "ex_HandleEvent i f data =
     Some \<lparr>EventHandleResult.InstanceID = ''1'', Code = 0, ErrMsg = []\<rparr>"

definition ex_SFID_String :: "SFID \<Rightarrow> string" where
  "ex_SFID_String i = (if i = 1 then ''1'' else ''2'')"

definition ex_status_Error :: "status \<Rightarrow> string" where
  "ex_status_Error v =
     (case v of
        InvalidAuthValue \<Rightarrow> ''invalid auth value''
      | InvalidAuthPorjectID \<Rightarrow> ''invalid auth project id''
      | NoProjectPermission \<Rightarrow> ''no project permission'')"

definition ex_dispatch :: "nat Dispatch" where
  "ex_dispatch =
     \<lparr>ProjectID = 42, ParseToken = ex_ParseToken, UnmarshalText = ex_UnmarshalText,
      GetPublisherByPubKeyAndProjectName = ex_GetPublisher,
      FindStrategyInstances = ex_FindStrategyInstances, GetConsumer = ex_GetConsumer,
      HandleEvent = ex_HandleEvent, SFID_String = ex_SFID_String,
      status_Error = ex_status_Error, completion = rev\<rparr>"

definition ex_header :: Header where
  "ex_header = \<lparr>EventId = ''e1'', PubId = [], Token = ''good'', EventType = []\<rparr>"

definition ev_default :: Event where
  "ev_default = \<lparr>Header = Some ex_header, Payload = ''hi''\<rparr>"

definition ev_unknown_pub :: Event where
  "ev_unknown_pub = \<lparr>Header = Some (ex_header\<lparr>PubId := ''pubB''\<rparr>), Payload = ''hi''\<rparr>"

definition ev_no_token :: Event where
  "ev_no_token = \<lparr>Header = Some (ex_header\<lparr>Token := []\<rparr>), Payload = ''hi''\<rparr>"

definition ev_bad_token :: Event where
  "ev_bad_token = \<lparr>Header = Some (ex_header\<lparr>Token := ''bad''\<rparr>), Payload = ''hi''\<rparr>"

definition ev_odd_token :: Event where
  "ev_odd_token = \<lparr>Header = Some (ex_header\<lparr>Token := ''odd''\<rparr>), Payload = ''hi''\<rparr>"

section \<open>Properties of the instance registry\<close>

lemma DelInstance_instances:
  "instances (snd (DelInstance s iid)) = (instances s)(iid := None)"
  by (simp add: DelInstance_def LoadAndRemove_def State_def Stop_def split: option.splits)

lemma DelInstance_objects:
  "objects (snd (DelInstance s iid)) =
     (case instances s iid of
        None \<Rightarrow> objects s
      | Some i \<Rightarrow> if objects s i = InstanceState_Started
                  then (objects s)(i := InstanceState_Stopped) else objects s)"
  by (simp add: DelInstance_def LoadAndRemove_def State_def Stop_def split: option.splits)

lemma DelInstance_error: "fst (DelInstance s iid) = None"
  by (simp add: DelInstance_def LoadAndRemove_def split: option.splits)

text \<open>
  C5, as stated, fails: deleting the STARTED instance registered under id 7 leaves the
  instance object in state STOPPED; it is never taken to DESTROYED.
\<close>

theorem DelInstance_destroyed_counterexample:
  "instances vm_started 7 = Some 0
   \<and> objects vm_started 0 = InstanceState_Started
   \<and> objects (snd (DelInstance vm_started 7)) 0 \<noteq> InstanceState_Destroyed"
  by (simp add: DelInstance_objects vm_started_def)

text \<open>
  C5, amended: \<open>DelInstance id\<close> on a registered instance whose state is STARTED stops
  it (STARTED to STOPPED), performs no transition to DESTROYED on any instance, deletes
  the registry entry and returns nil; afterwards no instance is observable under that id,
  and the other entries are untouched.
\<close>

theorem DelInstance_stops_and_removes:
  assumes "instances s iid = Some i" and "objects s i = InstanceState_Started"
  shows "fst (DelInstance s iid) = None
     \<and> instances (snd (DelInstance s iid)) iid = None
     \<and> (\<forall>iid'. iid' \<noteq> iid \<longrightarrow> instances (snd (DelInstance s iid)) iid' = instances s iid')
     \<and> objects (snd (DelInstance s iid)) i = InstanceState_Stopped
     \<and> (\<forall>j. j \<noteq> i \<longrightarrow> objects (snd (DelInstance s iid)) j = objects s j)
     \<and> (\<forall>j. objects (snd (DelInstance s iid)) j = InstanceState_Destroyed
            \<longrightarrow> objects s j = InstanceState_Destroyed)"
  using assms
  by (simp add: DelInstance_instances DelInstance_objects DelInstance_error)

theorem DelInstance_stops_and_removes_witness:
  "instances vm_started 7 = Some 0
   \<and> objects vm_started 0 = InstanceState_Started
   \<and> fst (DelInstance vm_started 7) = None
   \<and> instances (snd (DelInstance vm_started 7)) 7 = None
   \<and> objects (snd (DelInstance vm_started 7)) 0 = InstanceState_Stopped"
proof -
  have a: "instances vm_started 7 = Some 0"
    by (simp add: vm_started_def)
  have b: "objects vm_started 0 = InstanceState_Started"
    by (simp add: vm_started_def)
  from DelInstance_stops_and_removes [OF a b] a b show ?thesis
    by simp
qed

text \<open>
  C6, as stated, fails: \<open>StartInstance\<close> on the id of a CREATED instance leaves the
  instance CREATED, and on the id of a STOPPED instance leaves it STOPPED.
\<close>

theorem StartInstance_counterexample:
  "instances vm_created 7 = Some 0
   \<and> objects vm_created 0 = InstanceState_Created
   \<and> objects (snd (StartInstance vm_created 7)) 0 \<noteq> InstanceState_Started
   \<and> instances vm_stopped 7 = Some 0
   \<and> objects vm_stopped 0 = InstanceState_Stopped
   \<and> objects (snd (StartInstance vm_stopped 7)) 0 \<noteq> InstanceState_Started"
  by (simp add: StartInstance_def vm_created_def vm_stopped_def)

text \<open>
  C6, amended: \<open>StartInstance id\<close> is a no-op for every id and every registry: it
  returns nil and leaves the registry and the state of every instance as they were; an
  instance that is already STARTED stays STARTED.
\<close>

theorem StartInstance_noop:
  "StartInstance s iid = (None, s)
   \<and> (\<forall>i. instances s iid = Some i \<and> objects s i = InstanceState_Started
         \<longrightarrow> objects (snd (StartInstance s iid)) i = InstanceState_Started)"
  by (simp add: StartInstance_def)

theorem StartInstance_noop_witness:
  "StartInstance vm_started 7 = (None, vm_started)
   \<and> instances vm_started 7 = Some 0
   \<and> objects vm_started 0 = InstanceState_Started
   \<and> objects (snd (StartInstance vm_started 7)) 0 = InstanceState_Started"
proof -
  have a: "instances vm_started 7 = Some 0 \<and> objects vm_started 0 = InstanceState_Started"
    by (simp add: vm_started_def)
  from StartInstance_noop [of vm_started 7] a show ?thesis
    by simp
qed

text \<open>
  C10: for every id and every registry (so also for ids never added and ids already
  removed), \<open>GetInstanceState\<close> returns the pair (STOPPED, true).
\<close>

theorem GetInstanceState_constant:
  "GetInstanceState s iid = (InstanceState_Stopped, True)"
  by (simp add: GetInstanceState_def)

section \<open>Status codes of the host functions on a failed read\<close>

lemmas status_defs =
  ResultStatusCode_OK_def ResultStatusCode_Failed_def ResultStatusCode_ResourceNotFound_def
  ResultStatusCode_TransDataFromVMFailed_def ResultStatusCode_TransDataToVMFailed_def
  ResultStatusCode_NoDBContext_def ResultStatusCode_EnvKeyNotFound_def
  ResultStatusCode_HostInternal_def

lemma ex_Read_outside: "Read ex_host (mem ex_ef) 100 4 = Inl ''overflow''"
  by (simp add: ex_host_def ex_ef_def ex_Read_def)

text \<open>
  C4, as stated, fails: in the example host the range (100, 4) lies outside the guest
  memory, so \<open>Read\<close> fails there; \<open>SetData\<close> then returns TransDataToVMFailed, and
  neither \<open>GetDB\<close>, \<open>SetDB\<close>, \<open>GetEnv\<close> nor \<open>Log\<close> returns TransDataFromVMFailed.
\<close>

theorem Read_failure_codes_counterexample:
  "Read ex_host (mem ex_ef) 100 4 = Inl ''overflow''
   \<and> fst (SetData ex_host ex_ef 1 100 4) = ResultStatusCode_TransDataToVMFailed
   \<and> fst (SetData ex_host ex_ef 1 100 4) \<noteq> ResultStatusCode_TransDataFromVMFailed
   \<and> fst (GetDB ex_host ex_ef 100 4 0 4) \<noteq> ResultStatusCode_TransDataFromVMFailed
   \<and> fst (SetDB ex_host ex_ef 100 4 0 4) \<noteq> ResultStatusCode_TransDataFromVMFailed
   \<and> fst (GetEnv ex_host ex_ef 100 4 0 4) \<noteq> ResultStatusCode_TransDataFromVMFailed
   \<and> fst (Log ex_host ex_ef 2 100 4) \<noteq> ResultStatusCode_TransDataFromVMFailed"
proof -
  have e: "env ex_host = Some [''region'' \<mapsto> ''eu'']"
    by (simp add: ex_host_def)
  show ?thesis
    by (simp add: ex_Read_outside e SetData_def GetDB_def SetDB_def GetEnv_def Log_def status_defs)
qed

text \<open>
  C4, amended: whenever the runtime's \<open>Read\<close> of its (ptr, size) fails, \<open>ApiCall\<close>
  returns the status code TransDataFromVMFailed, which is -3; \<open>Log\<close> reports the same
  failure with the general code Failed, which is -1.
\<close>

theorem ApiCall_Read_failure:
  assumes "Read h (mem ef) kAddr kSize = Inl err"
  shows "fst (ApiCall h ef kAddr kSize vmAddrPtr vmSizePtr) = ResultStatusCode_TransDataFromVMFailed
     \<and> sint ResultStatusCode_TransDataFromVMFailed = - 3
     \<and> fst (Log h ef logLevel kAddr kSize) = ResultStatusCode_Failed
     \<and> sint ResultStatusCode_Failed = - 1"
  using assms by (simp add: ApiCall_def Log_def status_defs)

theorem ApiCall_Read_failure_witness:
  "Read ex_host (mem ex_ef) 100 4 = Inl ''overflow''
   \<and> fst (ApiCall ex_host ex_ef 100 4 0 4) = ResultStatusCode_TransDataFromVMFailed
   \<and> fst (Log ex_host ex_ef 2 100 4) = ResultStatusCode_Failed"
  using ApiCall_Read_failure [OF ex_Read_outside, of 0 4 2] ex_Read_outside by simp

section \<open>Round trips through the resource map and the key-value store\<close>

text \<open>The conversion \<open>uint32\<close> of a resource id loses nothing.\<close>

lemma uint32_inj: "uint32 a = uint32 b \<longleftrightarrow> a = b"
  by (simp add: uint32_def)

text \<open>
  C7: when \<open>SetData rid\<close> succeeds, that is when its \<open>Read\<close> yields bytes \<open>v\<close>, it
  returns OK and the resource map holds \<open>v\<close> under \<open>rid\<close>; a following \<open>GetData rid\<close>
  hands exactly \<open>v\<close> to \<open>Copy\<close> (the guest memory afterwards is what \<open>Copy\<close> of \<open>v\<close>
  leaves) and returns OK when that copy succeeds. For any other resource id \<open>rid'\<close>,
  whatever \<open>SetData rid\<close> did, the entry under \<open>rid'\<close> is unchanged, and \<open>GetData rid'\<close>
  returns the same status and leaves the same guest memory as it would have before.
\<close>

theorem SetData_GetData_roundtrip:
  "(Read h (mem ef) addr sz = Inr v \<longrightarrow>
      fst (SetData h ef rid addr sz) = ResultStatusCode_OK
      \<and> res (snd (SetData h ef rid addr sz)) (uint32 rid) = Some v
      \<and> mem (snd (GetData h (snd (SetData h ef rid addr sz)) rid p q))
          = snd (Copy h (mem ef) v p q)
      \<and> (fst (Copy h (mem ef) v p q) = None \<longrightarrow>
            fst (GetData h (snd (SetData h ef rid addr sz)) rid p q) = ResultStatusCode_OK))
   \<and> (rid' \<noteq> rid \<longrightarrow>
        res (snd (SetData h ef rid addr sz)) (uint32 rid') = res ef (uint32 rid')
        \<and> fst (GetData h (snd (SetData h ef rid addr sz)) rid' p q) = fst (GetData h ef rid' p q)
        \<and> mem (snd (GetData h (snd (SetData h ef rid addr sz)) rid' p q))
            = mem (snd (GetData h ef rid' p q)))"
  by (auto simp add: SetData_def GetData_def logAndPersistToDB_def uint32_inj
        split: sum.splits option.splits prod.splits)


lemma ex_Read_value: "Read ex_host (mem ex_ef) 3 5 = Inr ''value''"
  by (simp add: ex_host_def ex_ef_def ex_Read_def)

lemma ex_Read_key: "Read ex_host (mem ex_ef) 0 3 = Inr ''key''"
  by (simp add: ex_host_def ex_ef_def ex_Read_def)

lemma ex_Read_value': "Read ex_host ''keyvalue'' 3 5 = Inr ''value''"
  by (simp add: ex_host_def ex_Read_def)

lemma ex_Read_key': "Read ex_host ''keyvalue'' 0 3 = Inr ''key''"
  by (simp add: ex_host_def ex_Read_def)

lemma ex_Copy_ok: "Copy ex_host m data p q = (None, m @ data)"
  by (simp add: ex_host_def ex_Copy_def)

theorem SetData_GetData_roundtrip_witness:
  "Read ex_host (mem ex_ef) 3 5 = Inr ''value''
   \<and> fst (SetData ex_host ex_ef 9 3 5) = ResultStatusCode_OK
   \<and> res (snd (SetData ex_host ex_ef 9 3 5)) (uint32 9) = Some ''value''
   \<and> mem (snd (GetData ex_host (snd (SetData ex_host ex_ef 9 3 5)) 9 0 4))
       = ''keyvalue'' @ ''value''
   \<and> fst (GetData ex_host (snd (SetData ex_host ex_ef 9 3 5)) 9 0 4) = ResultStatusCode_OK
   \<and> (8::int32) \<noteq> 9
   \<and> fst (GetData ex_host (snd (SetData ex_host ex_ef 9 3 5)) 8 0 4)
       = fst (GetData ex_host ex_ef 8 0 4)"
proof -
  have m: "mem ex_ef = ''keyvalue''"
    by (simp add: ex_ef_def)
  from SetData_GetData_roundtrip [of ex_host ex_ef 3 5 "''value''" 9 0 4 8]
  show ?thesis
    by (simp add: ex_Read_value' ex_Copy_ok m)
qed

text \<open>
  C8: let \<open>SetDB\<close> succeed with key \<open>k\<close> and value \<open>v\<close> (the bytes its two reads
  yield), on a key-value store that answers a lookup of \<open>k\<close> after an accepted write of
  \<open>v\<close> with \<open>v\<close>. Then a \<open>GetDB\<close> that follows directly on the same instance with key
  \<open>k\<close> hands exactly \<open>v\<close> to \<open>Copy\<close> and, the copy into the guest succeeding, returns
  OK.
\<close>

theorem SetDB_GetDB_roundtrip:
  assumes key: "Read h (mem ef) kAddr kSize = Inr k"
      and val: "Read h (mem ef) vAddr vSize = Inr v"
      and set: "SetDB h ef kAddr kSize vAddr vSize = (ResultStatusCode_OK, ef')"
      and store: "\<forall>kv kv'. kvs_Set h kv k v = (None, kv') \<longrightarrow> kvs_Get h kv' k = (Some v, None)"
      and key': "Read h (mem ef') kAddr' kSize' = Inr k"
      and copy: "fst (Copy h (mem ef') v p q) = None"
  shows "fst (GetDB h ef' kAddr' kSize' p q) = ResultStatusCode_OK
     \<and> mem (snd (GetDB h ef' kAddr' kSize' p q)) = snd (Copy h (mem ef') v p q)"
proof -
  obtain e kv where s: "kvs_Set h (kvs ef) k v = (e, kv)"
    by (cases "kvs_Set h (kvs ef) k v")
  have e: "e = None"
    using set key val s
    by (cases e) (simp_all add: SetDB_def Let_def logAndPersistToDB_def status_defs)
  have ef': "kvs ef' = kv \<and> mem ef' = mem ef"
    using set key val s e
    by (auto simp add: SetDB_def Let_def logAndPersistToDB_def)
  have g: "kvs_Get h (kvs ef') k = (Some v, None)"
    using store s e ef' by simp
  obtain c m where c: "Copy h (mem ef') v p q = (c, m)"
    by (cases "Copy h (mem ef') v p q")
  with copy have "c = None" by simp
  with c g key' show ?thesis
    by (simp add: GetDB_def Let_def logAndPersistToDB_def)
qed

theorem SetDB_GetDB_roundtrip_witness:
  "Read ex_host (mem ex_ef) 0 3 = Inr ''key''
   \<and> Read ex_host (mem ex_ef) 3 5 = Inr ''value''
   \<and> fst (SetDB ex_host ex_ef 0 3 3 5) = ResultStatusCode_OK
   \<and> fst (GetDB ex_host (snd (SetDB ex_host ex_ef 0 3 3 5)) 0 3 0 4) = ResultStatusCode_OK
   \<and> mem (snd (GetDB ex_host (snd (SetDB ex_host ex_ef 0 3 3 5)) 0 3 0 4))
       = ''keyvalue'' @ ''value''"
proof -
  define ef' where "ef' = snd (SetDB ex_host ex_ef 0 3 3 5)"
  have kv: "kvs_Set ex_host = ex_kvs_Set" "kvs_Get ex_host = ex_kvs_Get"
    by (simp_all add: ex_host_def)
  have set: "SetDB ex_host ex_ef 0 3 3 5 = (ResultStatusCode_OK, ef')"
    by (simp add: ef'_def SetDB_def ex_Read_key ex_Read_value Let_def kv ex_kvs_Set_def)
  have m: "mem ef' = mem ex_ef"
    by (simp add: ef'_def SetDB_def ex_Read_key ex_Read_value Let_def kv ex_kvs_Set_def
          logAndPersistToDB_def)
  have store: "\<forall>kv kv'. kvs_Set ex_host kv ''key'' ''value'' = (None, kv')
                 \<longrightarrow> kvs_Get ex_host kv' ''key'' = (Some ''value'', None)"
    by (auto simp add: kv ex_kvs_Set_def ex_kvs_Get_def)
  have key': "Read ex_host (mem ef') 0 3 = Inr ''key''"
    by (simp add: m ex_Read_key)
  have copy: "fst (Copy ex_host (mem ef') ''value'' 0 4) = None"
    by (simp add: ex_Copy_ok)
  have mm: "mem ex_ef = ''keyvalue''"
    by (simp add: ex_ef_def)
  from SetDB_GetDB_roundtrip [OF ex_Read_key ex_Read_value set store key' copy]
  show ?thesis
    by (simp add: ex_Read_key' ex_Read_value' set ef'_def [symmetric] ex_Copy_ok m mm)
qed

section \<open>Properties of the event dispatcher\<close>

text \<open>
  What the fan-out loop sends for a handler: the entry made on the spot for an instance that
  is not in the registry, the result of \<open>HandleEvent\<close> otherwise.
\<close>

lemma fanout_map:
  "fanout d r hs =
     map (\<lambda>v. case GetConsumer d (InstanceHandler.InstanceID v) of
                 None \<Rightarrow>
                   Some \<lparr>EventHandleResult.InstanceID =
                           SFID_String d (InstanceHandler.InstanceID v),
                         Code = - 1, ErrMsg = ''instance not found''\<rparr>
               | Some i \<Rightarrow> HandleEvent d i (Handler v) (Payload r)) hs"
  by (induction hs) simp_all

lemma fanout_not_nil:
  assumes "\<forall>i f p. HandleEvent d i f p \<noteq> None"
  shows "\<forall>z \<in> set (fanout d r hs). z \<noteq> None"
  using assms by (induction hs) (auto split: option.splits)

text \<open>Draining a channel without nil entries keeps every entry, in the channel's order.\<close>

lemma collect_not_nil:
  assumes "\<forall>z \<in> set zs. z \<noteq> None"
  shows "map Some (collect zs acc) = map Some acc @ zs"
  using assms
proof (induction zs arbitrary: acc)
  case Nil
  show ?case by simp
next
  case (Cons z zs)
  then obtain v where z: "z = Some v"
    by auto
  from Cons.prems have "\<forall>z \<in> set zs. z \<noteq> None"
    by simp
  from Cons.IH [OF this, of "acc @ [v]"] z show ?case
    by simp
qed

lemma OnEventReceived_fanout:
  assumes "Header r = Some h"
      and "publisherVerification d r = None"
      and "length (PubId h) = 0
           \<or> (\<exists>pub. GetPublisherByPubKeyAndProjectName d (PubId h) projectName = Inr pub)"
      and "FindStrategyInstances d projectName
             (if length (EventType h) > 0 then EventType h else EVENTTYPEDEFAULT) = Inr handlers"
  shows "\<exists>ret. OnEventReceived d projectName r = Some (ret, None)
           \<and> WasmResults ret = collect (completion d (fanout d r handlers)) []"
  using assms
  by (auto simp add: OnEventReceived_def Let_def deferred_def)

text \<open>
  C1: let a call of \<open>OnEventReceived\<close> pass authentication and publisher resolution, let
  the resolver match the list \<open>handlers\<close>, let every \<open>HandleEvent\<close> yield a result (the
  contract of an instance: every outcome of a handler is a result, never nil), and let the
  results reach the channel in any order. Then the call returns with a nil error, and
  \<^item> the number of entries of \<open>WasmResults\<close> equals the number of matched handlers;
  \<^item> for every matched handler whose instance is absent from the registry, \<open>WasmResults\<close>
    holds the entry with that instance's id, code -1 and the message "instance not found";
  \<^item> for every matched handler whose instance is present, \<open>WasmResults\<close> holds the result
    of its \<open>HandleEvent\<close> on the handler's name and the event's payload;
  \<^item> as multisets, the entries of \<open>WasmResults\<close> are exactly these, one per matched
    handler.
\<close>

theorem OnEventReceived_results_count:
  assumes "Header r = Some h"
      and "publisherVerification d r = None"
      and "length (PubId h) = 0
           \<or> (\<exists>pub. GetPublisherByPubKeyAndProjectName d (PubId h) projectName = Inr pub)"
      and "FindStrategyInstances d projectName
             (if length (EventType h) > 0 then EventType h else EVENTTYPEDEFAULT) = Inr handlers"
      and "\<forall>i f p. HandleEvent d i f p \<noteq> None"
      and "mset (completion d (fanout d r handlers)) = mset (fanout d r handlers)"
  shows "\<exists>ret. OnEventReceived d projectName r = Some (ret, None)
           \<and> length (WasmResults ret) = length handlers
           \<and> (\<forall>v \<in> set handlers.
                 GetConsumer d (InstanceHandler.InstanceID v) = None \<longrightarrow>
                 \<lparr>EventHandleResult.InstanceID = SFID_String d (InstanceHandler.InstanceID v),
                  Code = - 1, ErrMsg = ''instance not found''\<rparr> \<in> set (WasmResults ret))
           \<and> (\<forall>v \<in> set handlers. \<forall>i.
                 GetConsumer d (InstanceHandler.InstanceID v) = Some i \<longrightarrow>
                 HandleEvent d i (Handler v) (Payload r) \<in> Some ` set (WasmResults ret))
           \<and> mset (map Some (WasmResults ret))
               = mset (map (\<lambda>v. case GetConsumer d (InstanceHandler.InstanceID v) of
                                   None \<Rightarrow>
                                     Some \<lparr>EventHandleResult.InstanceID =
                                             SFID_String d (InstanceHandler.InstanceID v),
                                           Code = - 1, ErrMsg = ''instance not found''\<rparr>
                                 | Some i \<Rightarrow> HandleEvent d i (Handler v) (Payload r))
                         handlers)"
proof -
  let ?entry = "\<lambda>v. case GetConsumer d (InstanceHandler.InstanceID v) of
                       None \<Rightarrow>
                         Some \<lparr>EventHandleResult.InstanceID =
                                 SFID_String d (InstanceHandler.InstanceID v),
                               Code = - 1, ErrMsg = ''instance not found''\<rparr>
                     | Some i \<Rightarrow> HandleEvent d i (Handler v) (Payload r)"
  from OnEventReceived_fanout [OF assms(1-4)]
  obtain ret where ret: "OnEventReceived d projectName r = Some (ret, None)"
    and res: "WasmResults ret = collect (completion d (fanout d r handlers)) []"
    by blast
  have "set (completion d (fanout d r handlers)) = set (fanout d r handlers)"
    by (rule mset_eq_setD [OF assms(6)])
  with fanout_not_nil [OF assms(5), of r handlers]
  have "\<forall>z \<in> set (completion d (fanout d r handlers)). z \<noteq> None"
    by simp
  from collect_not_nil [OF this, of "[]"]
  have chan: "map Some (WasmResults ret) = completion d (fanout d r handlers)"
    by (simp add: res)
  have "mset (map Some (WasmResults ret)) = mset (fanout d r handlers)"
    by (simp only: chan assms(6))
  also have "fanout d r handlers = map ?entry handlers"
    by (rule fanout_map)
  finally have m: "mset (map Some (WasmResults ret)) = mset (map ?entry handlers)" .
  from mset_eq_length [OF m] have n: "length (WasmResults ret) = length handlers"
    by simp
  from mset_eq_setD [OF m]
  have s: "Some ` set (WasmResults ret) = ?entry ` set handlers"
    by simp
  have absent: "\<forall>v \<in> set handlers.
                  GetConsumer d (InstanceHandler.InstanceID v) = None \<longrightarrow>
                  \<lparr>EventHandleResult.InstanceID = SFID_String d (InstanceHandler.InstanceID v),
                   Code = - 1, ErrMsg = ''instance not found''\<rparr> \<in> set (WasmResults ret)"
  proof (intro ballI impI)
    fix v
    assume v: "v \<in> set handlers"
      and g: "GetConsumer d (InstanceHandler.InstanceID v) = None"
    from v have "?entry v \<in> ?entry ` set handlers"
      by (rule imageI)
    with s g
    have "Some \<lparr>EventHandleResult.InstanceID = SFID_String d (InstanceHandler.InstanceID v),
                Code = - 1, ErrMsg = ''instance not found''\<rparr> \<in> Some ` set (WasmResults ret)"
      by simp
    then show "\<lparr>EventHandleResult.InstanceID = SFID_String d (InstanceHandler.InstanceID v),
                Code = - 1, ErrMsg = ''instance not found''\<rparr> \<in> set (WasmResults ret)"
      by auto
  qed
  have present: "\<forall>v \<in> set handlers. \<forall>i.
                   GetConsumer d (InstanceHandler.InstanceID v) = Some i \<longrightarrow>
                   HandleEvent d i (Handler v) (Payload r) \<in> Some ` set (WasmResults ret)"
  proof (intro ballI allI impI)
    fix v i
    assume v: "v \<in> set handlers"
      and g: "GetConsumer d (InstanceHandler.InstanceID v) = Some i"
    from v have "?entry v \<in> ?entry ` set handlers"
      by (rule imageI)
    with s g show "HandleEvent d i (Handler v) (Payload r) \<in> Some ` set (WasmResults ret)"
      by simp
  qed
  from ret n absent present m show ?thesis
    by blast
qed

lemma ex_dispatch_sel:
  "ProjectID ex_dispatch = 42"
  "ParseToken ex_dispatch = ex_ParseToken"
  "UnmarshalText ex_dispatch = ex_UnmarshalText"
  "GetPublisherByPubKeyAndProjectName ex_dispatch = ex_GetPublisher"
  "FindStrategyInstances ex_dispatch = ex_FindStrategyInstances"
  "GetConsumer ex_dispatch = ex_GetConsumer"
  "HandleEvent ex_dispatch = ex_HandleEvent"
  "SFID_String ex_dispatch = ex_SFID_String"
  "status_Error ex_dispatch = ex_status_Error"
  "completion ex_dispatch = rev"
  by (simp_all add: ex_dispatch_def)

lemmas ex_dispatch_defs =
  ex_dispatch_sel ex_ParseToken_def ex_UnmarshalText_def ex_GetPublisher_def
  ex_FindStrategyInstances_def ex_GetConsumer_def ex_HandleEvent_def ex_SFID_String_def
  ex_status_Error_def ex_header_def

lemma ex_events:
  "Header ev_default = Some ex_header"
  "Header ev_unknown_pub = Some (ex_header\<lparr>PubId := ''pubB''\<rparr>)"
  "Header ev_no_token = Some (ex_header\<lparr>Token := []\<rparr>)"
  "Header ev_bad_token = Some (ex_header\<lparr>Token := ''bad''\<rparr>)"
  "Header ev_odd_token = Some (ex_header\<lparr>Token := ''odd''\<rparr>)"
  "Payload ev_default = ''hi''"
  "Payload ev_unknown_pub = ''hi''"
  by (simp_all add: ev_default_def ev_unknown_pub_def ev_no_token_def
        ev_bad_token_def ev_odd_token_def)

lemma ex_verified:
  "publisherVerification ex_dispatch ev_default = None"
  "publisherVerification ex_dispatch ev_unknown_pub = None"
  by (simp_all add: publisherVerification_def ex_events ex_dispatch_defs)

theorem OnEventReceived_results_count_witness:
  "Header ev_default = Some ex_header
   \<and> publisherVerification ex_dispatch ev_default = None
   \<and> length (PubId ex_header) = 0
   \<and> FindStrategyInstances ex_dispatch ''p'' EVENTTYPEDEFAULT
       = Inr [\<lparr>InstanceID = 1, Handler = ''start''\<rparr>, \<lparr>InstanceID = 2, Handler = ''start''\<rparr>]
   \<and> GetConsumer ex_dispatch 1 = Some 1
   \<and> GetConsumer ex_dispatch 2 = None
   \<and> map_option snd (OnEventReceived ex_dispatch ''p'' ev_default) = Some None
   \<and> map_option (length \<circ> WasmResults \<circ> fst) (OnEventReceived ex_dispatch ''p'' ev_default)
       = Some 2
   \<and> map_option (WasmResults \<circ> fst) (OnEventReceived ex_dispatch ''p'' ev_default)
       = Some [\<lparr>EventHandleResult.InstanceID = ''2'', Code = - 1,
                 ErrMsg = ''instance not found''\<rparr>,
               \<lparr>EventHandleResult.InstanceID = ''1'', Code = 0, ErrMsg = []\<rparr>]"
proof -
  let ?hs = "[\<lparr>InstanceID = 1, Handler = ''start''\<rparr>, \<lparr>InstanceID = 2, Handler = ''start''\<rparr>]"
  have h: "Header ev_default = Some ex_header"
    by (simp add: ex_events)
  have p: "length (PubId ex_header) = 0
           \<or> (\<exists>pub. GetPublisherByPubKeyAndProjectName ex_dispatch (PubId ex_header) ''p'' = Inr pub)"
    by (simp add: ex_header_def)
  have f: "FindStrategyInstances ex_dispatch ''p''
             (if length (EventType ex_header) > 0 then EventType ex_header else EVENTTYPEDEFAULT)
           = Inr ?hs"
    by (simp add: ex_dispatch_defs EVENTTYPEDEFAULT_def)
  have n: "\<forall>i f p. HandleEvent ex_dispatch i f p \<noteq> None"
    by (simp add: ex_dispatch_sel ex_HandleEvent_def)
  have c: "mset (completion ex_dispatch (fanout ex_dispatch ev_default ?hs))
           = mset (fanout ex_dispatch ev_default ?hs)"
    by (simp add: ex_dispatch_sel)
  from OnEventReceived_results_count [OF h ex_verified(1) p f n c]
  obtain ret where ret: "OnEventReceived ex_dispatch ''p'' ev_default = Some (ret, None)"
    and len: "length (WasmResults ret) = 2"
    by auto
  have res: "map_option (WasmResults \<circ> fst) (OnEventReceived ex_dispatch ''p'' ev_default)
             = Some [\<lparr>EventHandleResult.InstanceID = ''2'', Code = - 1,
                       ErrMsg = ''instance not found''\<rparr>,
                     \<lparr>EventHandleResult.InstanceID = ''1'', Code = 0, ErrMsg = []\<rparr>]"
    by (simp add: OnEventReceived_def ex_verified ex_events ex_dispatch_defs EVENTTYPEDEFAULT_def
          Let_def deferred_def)
  have f': "FindStrategyInstances ex_dispatch ''p'' EVENTTYPEDEFAULT = Inr ?hs"
    by (simp add: ex_dispatch_defs EVENTTYPEDEFAULT_def)
  have g: "GetConsumer ex_dispatch 1 = Some 1 \<and> GetConsumer ex_dispatch 2 = None"
    by (simp add: ex_dispatch_defs)
  have e: "length (PubId ex_header) = 0"
    by (simp add: ex_header_def)
  from ret len res f' g e h ex_verified(1) show ?thesis
    by simp
qed

text \<open>
  C2, on the code: an event with a valid token and the unregistered publisher key
  \<open>''pubB''\<close>. The lookup fails, and \<open>OnEventReceived\<close> returns a nil error and a result
  whose \<open>ErrMsg\<close> is empty (and whose \<open>WasmResults\<close> is empty); the claim asks for
  \<open>ErrMsg\<close> to be set.
\<close>

theorem OnEventReceived_unknown_publisher:
  "Header ev_unknown_pub = Some (ex_header\<lparr>PubId := ''pubB''\<rparr>)
   \<and> publisherVerification ex_dispatch ev_unknown_pub = None
   \<and> GetPublisherByPubKeyAndProjectName ex_dispatch ''pubB'' ''p''
       = Inl (Foreign ''publisher not found'')
   \<and> OnEventReceived ex_dispatch ''p'' ev_unknown_pub
       = Some (\<lparr>ProjectName = ''p'', PubID = 0, PubName = [], EventID = ''e1'',
                 ErrMsg = [], WasmResults = []\<rparr>, None)"
  by (simp add: OnEventReceived_def ex_verified ex_events ex_dispatch_defs Let_def deferred_def)

text \<open>The same on every input: a failed publisher lookup is returned without an error.\<close>

lemma OnEventReceived_publisher_miss:
  assumes "Header r = Some h"
      and "publisherVerification d r = None"
      and "length (PubId h) > 0"
      and "GetPublisherByPubKeyAndProjectName d (PubId h) projectName = Inl e"
  shows "OnEventReceived d projectName r
         = Some (\<lparr>ProjectName = projectName, PubID = 0, PubName = [], EventID = EventId h,
                   ErrMsg = [], WasmResults = []\<rparr>, None)"
  using assms by (simp add: OnEventReceived_def Let_def deferred_def)

text \<open>
  C3, as stated, fails: an event whose token is empty is rejected with the error made by
  \<open>errors.New\<close> with the text "message token is invalid", which is not
  \<open>InvalidAuthValue\<close>.
\<close>

theorem OnEventReceived_empty_token_counterexample:
  "Header ev_no_token = Some (ex_header\<lparr>Token := []\<rparr>)
   \<and> map_option snd (OnEventReceived ex_dispatch ''p'' ev_no_token)
       = Some (Some (errors_New ''message token is invalid''))
   \<and> map_option snd (OnEventReceived ex_dispatch ''p'' ev_no_token)
       \<noteq> Some (Some (StatusError InvalidAuthValue))"
  by (simp add: OnEventReceived_def publisherVerification_def ex_events Let_def
        deferred_def)

text \<open>
  C3, amended: for every event with a header, \<open>OnEventReceived\<close> rejects the event and
  invokes no handler (\<open>WasmResults\<close> is empty, \<open>ErrMsg\<close> is the text of the error)
  \<^item> with the error "message token is invalid" when the token is empty;
  \<^item> with the error of \<open>ParseToken\<close> when the token does not parse under the project's
    signing key;
  \<^item> with \<open>InvalidAuthValue\<close> when the token parses and the payload of its claim is not
    a string.
\<close>

theorem OnEventReceived_rejects_token:
  assumes "Header r = Some h"
  shows "(length (Token h) = 0 \<longrightarrow>
            OnEventReceived d projectName r
            = Some (\<lparr>ProjectName = projectName, PubID = 0, PubName = [], EventID = EventId h,
                      ErrMsg = ''message token is invalid'', WasmResults = []\<rparr>,
                    Some (errors_New ''message token is invalid'')))
     \<and> (length (Token h) > 0 \<and> ParseToken d (Token h) = Inl err \<longrightarrow>
            OnEventReceived d projectName r
            = Some (\<lparr>ProjectName = projectName, PubID = 0, PubName = [], EventID = EventId h,
                      ErrMsg = Error d err, WasmResults = []\<rparr>, Some err))
     \<and> (length (Token h) > 0 \<and> ParseToken d (Token h) = Inr PayloadOther \<longrightarrow>
            OnEventReceived d projectName r
            = Some (\<lparr>ProjectName = projectName, PubID = 0, PubName = [], EventID = EventId h,
                      ErrMsg = status_Error d InvalidAuthValue, WasmResults = []\<rparr>,
                    Some (StatusError InvalidAuthValue)))"
  using assms
  by (simp add: OnEventReceived_def publisherVerification_def Let_def deferred_def Error_def)

theorem OnEventReceived_rejects_token_witness:
  "Header ev_no_token = Some (ex_header\<lparr>Token := []\<rparr>)
   \<and> OnEventReceived ex_dispatch ''p'' ev_no_token
       = Some (\<lparr>ProjectName = ''p'', PubID = 0, PubName = [], EventID = ''e1'',
                 ErrMsg = ''message token is invalid'', WasmResults = []\<rparr>,
               Some (errors_New ''message token is invalid''))
   \<and> Header ev_bad_token = Some (ex_header\<lparr>Token := ''bad''\<rparr>)
   \<and> ParseToken ex_dispatch ''bad'' = Inl (Foreign ''token is invalid'')
   \<and> OnEventReceived ex_dispatch ''p'' ev_bad_token
       = Some (\<lparr>ProjectName = ''p'', PubID = 0, PubName = [], EventID = ''e1'',
                 ErrMsg = ''token is invalid'', WasmResults = []\<rparr>,
               Some (Foreign ''token is invalid''))
   \<and> Header ev_odd_token = Some (ex_header\<lparr>Token := ''odd''\<rparr>)
   \<and> ParseToken ex_dispatch ''odd'' = Inr PayloadOther
   \<and> OnEventReceived ex_dispatch ''p'' ev_odd_token
       = Some (\<lparr>ProjectName = ''p'', PubID = 0, PubName = [], EventID = ''e1'',
                 ErrMsg = ''invalid auth value'', WasmResults = []\<rparr>,
               Some (StatusError InvalidAuthValue))"
proof -
  have h1: "Header ev_no_token = Some (ex_header\<lparr>Token := []\<rparr>)"
    by (simp add: ex_events)
  have h2: "Header ev_bad_token = Some (ex_header\<lparr>Token := ''bad''\<rparr>)"
    by (simp add: ex_events)
  have h3: "Header ev_odd_token = Some (ex_header\<lparr>Token := ''odd''\<rparr>)"
    by (simp add: ex_events)
  have p2: "ParseToken ex_dispatch ''bad'' = Inl (Foreign ''token is invalid'')"
    by (simp add: ex_dispatch_defs)
  have p3: "ParseToken ex_dispatch ''odd'' = Inr PayloadOther"
    by (simp add: ex_dispatch_defs)
  have s: "status_Error ex_dispatch InvalidAuthValue = ''invalid auth value''"
    by (simp add: ex_dispatch_defs)
  have e: "EventId ex_header = ''e1''"
    by (simp add: ex_header_def)
  from OnEventReceived_rejects_token [OF h1, where d = ex_dispatch and projectName = "''p''"]
       OnEventReceived_rejects_token [OF h2, where d = ex_dispatch and projectName = "''p''"
         and err = "Foreign ''token is invalid''"]
       OnEventReceived_rejects_token [OF h3, where d = ex_dispatch and projectName = "''p''"]
  show ?thesis
    by (simp add: h1 h2 h3 p2 p3 s e Error_def)
qed

section \<open>Properties of the request worker\<close>

text \<open>
  C9: for every \<open>api_call\<close> task that decodes to a payload with a project and a
  request whose headers give no value for \<open>eventType\<close> (\<open>Header.Get\<close> yields the empty
  string), \<open>ProcessTask\<close> returns an error that wraps \<open>asynq.SkipRetry\<close>, and the queue
  is as it was before: no \<open>api_result\<close> task is enqueued.
\<close>

theorem ProcessTask_missing_eventType:
  assumes "Unmarshal_payload b t = Inr payload"
      and "Unmarshal_request b (Data payload) = Inr apiReq"
      and "Project payload = Some prj"
      and "Header_Get b (HttpRequest.Header apiReq) ''eventType'' = []"
  shows "\<exists>err. ProcessTask b q t = Some (Some err, q) \<and> errors_Is err SkipRetry"
  using assms
  by (auto simp add: ProcessTask_def Let_def skipRetry_def errors_Is_def
        split: option.splits sum.splits)

text \<open>
  Every error \<open>ProcessTask\<close> returns wraps \<open>asynq.SkipRetry\<close> and comes with an unchanged
  queue.
\<close>

lemma ProcessTask_errors_skip_retry:
  assumes "ProcessTask b q t = Some (Some err, q')"
  shows "errors_Is err SkipRetry \<and> q' = q"
  using assms
  by (auto simp add: ProcessTask_def Let_def skipRetry_def errors_Is_def Enqueue_def
        split: option.splits sum.splits if_splits prod.splits)

lemma ex_broker_sel:
  "Unmarshal_payload ex_broker = ex_Unmarshal_payload"
  "Unmarshal_request ex_broker = ex_Unmarshal_request"
  "http_NewRequest ex_broker = ex_NewRequest"
  "ServeHTTP ex_broker = ex_ServeHTTP"
  "CanonicalHeaderKey ex_broker = ex_CanonicalHeaderKey"
  "Marshal_response ex_broker = ex_Marshal_response"
  "newApiResultTask ex_broker = ex_newApiResultTask"
  "Enqueue_error ex_broker = ex_Enqueue_error"
  "SkipRetry_Error ex_broker = ''skip retry for the task''"
  by (simp_all add: ex_broker_def)

lemmas ex_broker_defs =
  ex_broker_sel ex_Unmarshal_payload_def ex_Unmarshal_request_def ex_NewRequest_def
  ex_ServeHTTP_def ex_CanonicalHeaderKey_def ex_Marshal_response_def ex_newApiResultTask_def
  ex_Enqueue_error_def

theorem ProcessTask_missing_eventType_witness:
  "Unmarshal_payload ex_broker ''plain''
     = Inr \<lparr>Project = Some \<lparr>models_Project.Name = ''p''\<rparr>, ChainClient = (), Data = ''plain''\<rparr>
   \<and> Header_Get ex_broker [''Content-Type'' \<mapsto> [''text/plain'']] ''eventType'' = []
   \<and> ProcessTask ex_broker [] ''plain''
       = Some (Some (Errorf ''miss eventType, projectName p: skip retry for the task''
                       (Some SkipRetry)), [])"
proof -
  let ?payload = "\<lparr>Project = Some \<lparr>models_Project.Name = ''p''\<rparr>, ChainClient = (), Data = ''plain''\<rparr>"
  let ?req = "\<lparr>Method = ''GET'', Url = ''/echo'',
               Header = [''Content-Type'' \<mapsto> [''text/plain'']], Body = []\<rparr>"
  have p: "Unmarshal_payload ex_broker ''plain'' = Inr ?payload"
    by (simp add: ex_broker_defs)
  have r: "Unmarshal_request ex_broker (Data ?payload) = Inr ?req"
    by (simp add: ex_broker_defs)
  have j: "Project ?payload = Some \<lparr>models_Project.Name = ''p''\<rparr>"
    by simp
  have g: "Header_Get ex_broker (HttpRequest.Header ?req) ''eventType'' = []"
    by (simp add: Header_Get_def ex_broker_defs)
  from ProcessTask_missing_eventType [OF p r j g, of "[]"]
  obtain err where e: "ProcessTask ex_broker [] ''plain'' = Some (Some err, [])"
    by blast
  have "ProcessTask ex_broker [] ''plain''
        = Some (Some (Errorf ''miss eventType, projectName p: skip retry for the task''
                        (Some SkipRetry)), [])"
    by (simp add: ProcessTask_def Let_def Header_Get_def ex_broker_defs)
  with p g e show ?thesis
    by simp
qed

text \<open>With the header present the example task is answered and its result enqueued.\<close>

lemma ProcessTask_enqueues_example:
  "ProcessTask ex_broker [] ''typed'' = Some (None, [(''p'', ''resp.v1'', ''200 OK'')])"
  by (simp add: ProcessTask_def Let_def Header_Get_def Enqueue_def ex_broker_defs)

end
